theory Spec2Isabelle
  imports Complex_Main "HOL-Library.AList"
begin

section \<open>Python values, exceptions and the external world\<close>

text \<open>
  The tools of \<^verbatim>\<open>server.py\<close> return a Python \<^verbatim>\<open>str\<close> or let an exception escape.
  A tool is modelled as a function into \<open>exn + string\<close>: \<open>Inr s\<close> is the returned string,
  \<open>Inl e\<close> is the exception that leaves the tool uncaught. The argument of each
  constructor of \<open>exn\<close> is the text that \<^verbatim>\<open>str(e)\<close> (and so \<^verbatim>\<open>f"{e}"\<close>) yields.
  \<open>ProviderError\<close> stands for every exception class of the market-data library that is
  neither of the built-in ones listed.
\<close>

datatype exn =
    ValueError string
  | TypeError string
  | OverflowError string
  | KeyError string
  | ProviderError string

fun exn_str :: "exn \<Rightarrow> string" where
  "exn_str (ValueError m) = m"
| "exn_str (TypeError m) = m"
| "exn_str (OverflowError m) = m"
| "exn_str (KeyError m) = m"
| "exn_str (ProviderError m) = m"

text \<open>
  The values handed to \<^verbatim>\<open>json.dumps\<close>. The number type \<open>'n\<close> of Python floats is a
  parameter: the development uses nothing of it but the operations the source applies
  (\<open>-\<close>, \<open>/\<close>, \<open>*\<close>, the literals \<open>0\<close> and \<open>100\<close>), so every statement holds for whatever
  arithmetic the carrier provides. Dictionaries are association lists in insertion
  order, as Python dictionaries iterate.
\<close>

datatype pykey = KStr string | KInt int | KBool bool | KNone

datatype 'n pyval =
    PNone
  | PBool bool
  | PInt int
  | PFloat 'n
  | PStr string
  | PList "'n pyval list"
  | PDict "(pykey \<times> 'n pyval) list"

type_synonym 'n pydict = "(pykey \<times> 'n pyval) list"

text \<open>A row of a provider table (a pandas data frame): column name and cell.\<close>

type_synonym 'n row = "(string \<times> 'n pyval) list"

section \<open>Date-times\<close>

text \<open>
  A \<^verbatim>\<open>datetime.datetime\<close>. \<open>dt_utcoffset\<close> is \<open>None\<close> for a naive value and the offset
  from UTC in microseconds for an aware one (the parser only builds fixed offsets).
\<close>

record pydatetime =
  dt_year :: int
  dt_month :: int
  dt_day :: int
  dt_hour :: int
  dt_minute :: int
  dt_second :: int
  dt_microsecond :: int
  dt_utcoffset :: "int option"

definition is_leap :: "int \<Rightarrow> bool" where
  "is_leap y = (y mod 4 = 0 \<and> (y mod 100 \<noteq> 0 \<or> y mod 400 = 0))"

definition days_in_month :: "int \<Rightarrow> int \<Rightarrow> int" where
  "days_in_month y m =
     (if m = 2 then (if is_leap y then 29 else 28)
      else if m = 4 \<or> m = 6 \<or> m = 9 \<or> m = 11 then 30 else 31)"

definition days_before_year :: "int \<Rightarrow> int" where
  "days_before_year year =
     (let y = year - 1 in y * 365 + y div 4 - y div 100 + y div 400)"

definition days_before_month :: "int \<Rightarrow> int \<Rightarrow> int" where
  "days_before_month y m =
     [0, 31, 59, 90, 120, 151, 181, 212, 243, 273, 304, 334] ! nat (m - 1)
       + (if 2 < m \<and> is_leap y then 1 else 0)"

text \<open>The proleptic Gregorian ordinal of the date part (\<^verbatim>\<open>toordinal()\<close>).\<close>

definition toordinal :: "pydatetime \<Rightarrow> int" where
  "toordinal d =
     days_before_year (dt_year d) + days_before_month (dt_year d) (dt_month d) + dt_day d"

definition valid_datetime :: "pydatetime \<Rightarrow> bool" where
  "valid_datetime d =
     (1 \<le> dt_year d \<and> dt_year d \<le> 9999 \<and> 1 \<le> dt_month d \<and> dt_month d \<le> 12 \<and>
      1 \<le> dt_day d \<and> dt_day d \<le> days_in_month (dt_year d) (dt_month d) \<and>
      0 \<le> dt_hour d \<and> dt_hour d < 24 \<and> 0 \<le> dt_minute d \<and> dt_minute d < 60 \<and>
      0 \<le> dt_second d \<and> dt_second d < 60 \<and>
      0 \<le> dt_microsecond d \<and> dt_microsecond d < 1000000)"

definition dt_fields :: "pydatetime \<Rightarrow> int list" where
  "dt_fields d =
     [dt_year d, dt_month d, dt_day d, dt_hour d, dt_minute d, dt_second d, dt_microsecond d]"

text \<open>Comparison of two tuples of equal length: \<open>-1\<close>, \<open>0\<close> or \<open>1\<close>.\<close>

fun tuple_cmp :: "int list \<Rightarrow> int list \<Rightarrow> int" where
  "tuple_cmp [] [] = 0"
| "tuple_cmp [] (y # ys) = - 1"
| "tuple_cmp (x # xs) [] = 1"
| "tuple_cmp (x # xs) (y # ys) =
     (if x < y then - 1 else if y < x then 1 else tuple_cmp xs ys)"

definition utc_microseconds :: "pydatetime \<Rightarrow> int \<Rightarrow> int" where
  "utc_microseconds d off =
     (((toordinal d * 24 + dt_hour d) * 60 + dt_minute d) * 60 + dt_second d) * 1000000
       + dt_microsecond d - off"

text \<open>
  The ordering of date-times: two naive values, or two aware values of one offset,
  compare field by field; two aware values of different offsets compare as instants;
  a naive and an aware value cannot be ordered and the comparison raises.
\<close>

definition dt_cmp :: "pydatetime \<Rightarrow> pydatetime \<Rightarrow> exn + int" where
  "dt_cmp a b =
     (case (dt_utcoffset a, dt_utcoffset b) of
        (None, None) \<Rightarrow> Inr (tuple_cmp (dt_fields a) (dt_fields b))
      | (Some x, Some y) \<Rightarrow>
          if x = y then Inr (tuple_cmp (dt_fields a) (dt_fields b))
          else Inr (sgn (utc_microseconds a x - utc_microseconds b y))
      | _ \<Rightarrow> Inl (TypeError ''can't compare offset-naive and offset-aware datetimes''))"

text \<open>\<^verbatim>\<open>a >= b\<close>.\<close>

definition dt_ge :: "pydatetime \<Rightarrow> pydatetime \<Rightarrow> exn + bool" where
  "dt_ge a b = (case dt_cmp a b of Inl e \<Rightarrow> Inl e | Inr c \<Rightarrow> Inr (0 \<le> c))"

text \<open>
  \<^verbatim>\<open>d + timedelta(days=1)\<close>: the next calendar day at the same time of day and offset;
  past the last representable date (9999-12-31) the addition raises.
\<close>

definition add_one_day :: "pydatetime \<Rightarrow> exn + pydatetime" where
  "add_one_day d =
     (if dt_day d < days_in_month (dt_year d) (dt_month d)
        then Inr (d\<lparr>dt_day := dt_day d + 1\<rparr>)
      else if dt_month d < 12
        then Inr (d\<lparr>dt_month := dt_month d + 1, dt_day := 1\<rparr>)
      else if dt_year d < 9999
        then Inr (d\<lparr>dt_year := dt_year d + 1, dt_month := 1, dt_day := 1\<rparr>)
      else Inl (OverflowError ''date value out of range''))"

section \<open>The library and the provider\<close>

text \<open>
  The standard-library and pandas calls whose results the tools only pass on. They are
  parameters of the model: \<open>json_dumps ascii v\<close> is \<^verbatim>\<open>json.dumps(v, ensure_ascii=ascii)\<close>,
  \<open>to_json_records rows\<close> is \<^verbatim>\<open>df.to_json(orient="records")\<close>,
  \<open>fromisoformat s\<close> is \<^verbatim>\<open>datetime.fromisoformat(s)\<close>, and \<open>strftime_of_epoch_int i\<close>
  and \<open>strftime_of_epoch_float x\<close> are
  \<^verbatim>\<open>datetime.fromtimestamp(v).strftime("%Y-%m-%d %H:%M:%S")\<close> for an integer and for a
  float \<^verbatim>\<open>v\<close> (the rendering is in the local time zone of the process, and raises for
  a value out of the platform's range).
\<close>

record 'n pylib =
  json_dumps :: "bool \<Rightarrow> 'n pyval \<Rightarrow> string"
  to_json_records :: "'n row list \<Rightarrow> string"
  fromisoformat :: "string \<Rightarrow> exn + pydatetime"
  strftime_of_epoch_int :: "int \<Rightarrow> exn + string"
  strftime_of_epoch_float :: "'n \<Rightarrow> exn + string"

text \<open>The result of \<^verbatim>\<open>yf.Search(query)\<close>, a bar of a price series, a history request.\<close>

record 'n search_result =
  sr_all :: "'n pyval"
  sr_quotes :: "'n pyval"
  sr_news :: "'n pyval"

record 'n bar =
  bar_open :: 'n
  bar_high :: 'n
  bar_low :: 'n
  bar_close :: 'n
  bar_volume :: 'n

record history_request =
  hr_start :: pydatetime
  hr_end :: pydatetime
  hr_interval :: string
  hr_rounding :: bool

text \<open>
  The market-data provider (the \<^verbatim>\<open>yfinance\<close> package). Each field is one query of the
  source: \<open>Inl e\<close> when the query raises, \<open>Inr r\<close> when it returns. A table-valued query
  may return \<^verbatim>\<open>None\<close>. \<open>sector_industry_mapping\<close> is the imported constant
  \<^verbatim>\<open>SECTOR_INDUSTY_MAPPING\<close>; \<open>None\<close> means the key is absent.
\<close>

record 'n provider =
  ticker_info :: "string \<Rightarrow> exn + 'n pydict"
  yf_search :: "string \<Rightarrow> exn + 'n search_result"
  ticker_history :: "string \<Rightarrow> history_request \<Rightarrow> exn + 'n bar list"
  sector_top_etfs :: "string \<Rightarrow> exn + (string \<times> string) list"
  sector_top_mutual_funds :: "string \<Rightarrow> exn + (string \<times> string) list"
  sector_top_companies :: "string \<Rightarrow> exn + 'n row list option"
  sector_industry_mapping :: "string \<Rightarrow> string list option"
  industry_top_growth_companies :: "string \<Rightarrow> exn + 'n row list option"
  industry_top_performing_companies :: "string \<Rightarrow> exn + 'n row list option"

section \<open>String helpers\<close>

text \<open>\<^verbatim>\<open>sep.join(xs)\<close>.\<close>

fun join :: "string \<Rightarrow> string list \<Rightarrow> string" where
  "join sep [] = []"
| "join sep [x] = x"
| "join sep (x # y # ys) = x @ sep @ join sep (y # ys)"

definition newline :: string where
  "newline = [CHR 0x0A]"

definition quote :: string where
  "quote = [CHR 0x27]"

text \<open>\<^verbatim>\<open>f"{symbol}: {name}"\<close>.\<close>

definition fmt_entry :: "string \<times> string \<Rightarrow> string" where
  "fmt_entry e = fst e @ '': '' @ snd e"

text \<open>\<^verbatim>\<open>xs[:n]\<close> for an integer \<open>n\<close>; the tools only slice after checking \<open>n \<ge> 1\<close>.\<close>

definition slice_to :: "int \<Rightarrow> 'a list \<Rightarrow> 'a list" where
  "slice_to n xs = (if 0 \<le> n then take (nat n) xs else take (length xs - nat (- n)) xs)"

section \<open>Top-entity resolvers\<close>

definition top_n_message :: string where
  "top_n_message = ''top_n must be greater than 0''"

definition get_top_etfs :: "'n provider \<Rightarrow> string \<Rightarrow> int \<Rightarrow> exn + string" where
  "get_top_etfs P sector top_n =
     (if top_n < 1 then Inr top_n_message
      else case sector_top_etfs P sector of
             Inl e \<Rightarrow> Inl e
           | Inr etfs \<Rightarrow> Inr (join newline (slice_to top_n (map fmt_entry etfs))))"

definition get_top_mutual_funds :: "'n provider \<Rightarrow> string \<Rightarrow> int \<Rightarrow> exn + string" where
  "get_top_mutual_funds P sector top_n =
     (if top_n < 1 then Inr top_n_message
      else case sector_top_mutual_funds P sector of
             Inl e \<Rightarrow> Inl e
           | Inr funds \<Rightarrow> Inr (join newline (map fmt_entry funds)))"

definition error_object :: "string \<Rightarrow> 'n pyval" where
  "error_object msg = PDict [(KStr ''error'', PStr msg)]"

definition get_top_companies ::
  "'n pylib \<Rightarrow> 'n provider \<Rightarrow> string \<Rightarrow> int \<Rightarrow> exn + string" where
  "get_top_companies L P sector top_n =
     (if top_n < 1 then Inr top_n_message
      else case sector_top_companies P sector of
             Inl e \<Rightarrow>
               Inr (json_dumps L True (error_object
                 (''Failed to get top companies for sector '' @ quote @ sector @ quote
                    @ '': '' @ exn_str e)))
           | Inr None \<Rightarrow>
               Inr (json_dumps L True (error_object
                 (''No top companies available for '' @ sector @ '' sector.'')))
           | Inr (Some df) \<Rightarrow> Inr (to_json_records L (slice_to top_n df)))"

text \<open>
  The loop of the two grouped resolvers: \<open>query\<close> is the per-industry provider call,
  \<open>field\<close> the name of the data field, \<open>results\<close> the list built so far. An exception
  of a call ends the loop and leaves the tool.
\<close>

fun industry_loop ::
  "'n pylib \<Rightarrow> (string \<Rightarrow> exn + 'n row list option) \<Rightarrow> string \<Rightarrow> int \<Rightarrow>
     string list \<Rightarrow> 'n pyval list \<Rightarrow> exn + 'n pyval list" where
  "industry_loop L query field top_n [] results = Inr results"
| "industry_loop L query field top_n (industry_name # rest) results =
     (case query industry_name of
        Inl e \<Rightarrow> Inl e
      | Inr None \<Rightarrow> industry_loop L query field top_n rest results
      | Inr (Some df) \<Rightarrow>
          industry_loop L query field top_n rest
            (results @ [PDict [(KStr ''industry'', PStr industry_name),
                               (KStr field, PStr (to_json_records L (slice_to top_n df)))]]))"

definition get_top_growth_companies ::
  "'n pylib \<Rightarrow> 'n provider \<Rightarrow> string \<Rightarrow> int \<Rightarrow> exn + string" where
  "get_top_growth_companies L P sector top_n =
     (if top_n < 1 then Inr top_n_message
      else case sector_industry_mapping P sector of
             None \<Rightarrow> Inl (KeyError (quote @ sector @ quote))
           | Some industries \<Rightarrow>
               (case industry_loop L (industry_top_growth_companies P)
                       ''top_growth_companies'' top_n industries [] of
                  Inl e \<Rightarrow> Inl e
                | Inr results \<Rightarrow> Inr (json_dumps L False (PList results))))"

definition get_top_performing_companies ::
  "'n pylib \<Rightarrow> 'n provider \<Rightarrow> string \<Rightarrow> int \<Rightarrow> exn + string" where
  "get_top_performing_companies L P sector top_n =
     (if top_n < 1 then Inr top_n_message
      else case sector_industry_mapping P sector of
             None \<Rightarrow> Inl (KeyError (quote @ sector @ quote))
           | Some industries \<Rightarrow>
               (case industry_loop L (industry_top_performing_companies P)
                       ''top_performing_companies'' top_n industries [] of
                  Inl e \<Rightarrow> Inl e
                | Inr results \<Rightarrow> Inr (json_dumps L False (PList results))))"

definition get_top ::
  "'n pylib \<Rightarrow> 'n provider \<Rightarrow> string \<Rightarrow> string \<Rightarrow> int \<Rightarrow> exn + string" where
  "get_top L P sector top_type top_n =
     (if top_type = ''top_etfs'' then get_top_etfs P sector top_n
      else if top_type = ''top_mutual_funds'' then get_top_mutual_funds P sector top_n
      else if top_type = ''top_companies'' then get_top_companies L P sector top_n
      else if top_type = ''top_growth_companies'' then get_top_growth_companies L P sector top_n
      else if top_type = ''top_performing_companies''
        then get_top_performing_companies L P sector top_n
      else Inr ''Invalid top_type'')"

section \<open>Ticker information\<close>

text \<open>
  \<^verbatim>\<open>str.lower()\<close> on the ASCII letters. A string is its sequence of bytes; no other
  character lowers to one of the ASCII letters that the suffixes and the selectors
  below are made of, so the tests that follow see what the source's tests see.
\<close>

definition lower_char :: "char \<Rightarrow> char" where
  "lower_char c =
     (let n = (of_char c :: nat) in if 65 \<le> n \<and> n \<le> 90 then char_of (n + 32) else c)"

definition lower :: "string \<Rightarrow> string" where
  "lower s = map lower_char s"

text \<open>\<^verbatim>\<open>s.endswith(x)\<close> and \<^verbatim>\<open>s.endswith((x1, ..., xn))\<close>.\<close>

definition endswith :: "string \<Rightarrow> string \<Rightarrow> bool" where
  "endswith s x = (length x \<le> length s \<and> drop (length s - length x) s = x)"

definition endswith_any :: "string \<Rightarrow> string list \<Rightarrow> bool" where
  "endswith_any s xs = list_ex (endswith s) xs"

definition date_suffixes :: "string list" where
  "date_suffixes = [''date'', ''start'', ''end'', ''timestamp'', ''time'', ''quarter'']"

text \<open>
  \<^verbatim>\<open>datetime.fromtimestamp(value).strftime("%Y-%m-%d %H:%M:%S")\<close>: a number (a
  \<^verbatim>\<open>bool\<close> is an \<^verbatim>\<open>int\<close>) goes to the library; any other value raises \<^verbatim>\<open>TypeError\<close>.
  The text of that exception only reaches the log, which is not modelled.
\<close>

definition fromtimestamp_strftime :: "'n pylib \<Rightarrow> 'n pyval \<Rightarrow> exn + string" where
  "fromtimestamp_strftime L v =
     (case v of
        PInt i \<Rightarrow> strftime_of_epoch_int L i
      | PBool b \<Rightarrow> strftime_of_epoch_int L (if b then 1 else 0)
      | PFloat x \<Rightarrow> strftime_of_epoch_float L x
      | _ \<Rightarrow> Inl (TypeError ''a number is required''))"

text \<open>
  The loop over \<^verbatim>\<open>info.items()\<close>: \<open>items\<close> are the entries still to visit, \<open>info\<close> is
  the dictionary, updated in place by \<^verbatim>\<open>info[key] = ...\<close>.
\<close>

fun humanize_loop :: "'n pylib \<Rightarrow> 'n pydict \<Rightarrow> 'n pydict \<Rightarrow> 'n pydict" where
  "humanize_loop L [] info = info"
| "humanize_loop L ((key, val) # items) info =
     (case key of
        KStr k \<Rightarrow>
          if endswith_any (lower k) date_suffixes
          then (case fromtimestamp_strftime L val of
                  Inl e \<Rightarrow> humanize_loop L items info
                | Inr s \<Rightarrow> humanize_loop L items (AList.update key (PStr s) info))
          else humanize_loop L items info
      | _ \<Rightarrow> humanize_loop L items info)"

definition get_ticker_info :: "'n pylib \<Rightarrow> 'n provider \<Rightarrow> string \<Rightarrow> exn + string" where
  "get_ticker_info L P symbol =
     (case ticker_info P symbol of
        Inl e \<Rightarrow> Inl e
      | Inr info \<Rightarrow> Inr (json_dumps L False (PDict (humanize_loop L info info))))"

section \<open>Search\<close>

definition search :: "'n pylib \<Rightarrow> 'n provider \<Rightarrow> string \<Rightarrow> string \<Rightarrow> exn + string" where
  "search L P query search_type =
     (case yf_search P query of
        Inl e \<Rightarrow> Inl e
      | Inr s \<Rightarrow>
          (let t = lower search_type in
           if t = ''all'' then Inr (json_dumps L False (sr_all s))
           else if t = ''quotes'' then Inr (json_dumps L False (sr_quotes s))
           else if t = ''news'' then Inr (json_dumps L False (sr_news s))
           else Inr ''Invalid output_type. Use 'all', 'quotes', or 'news'.''))"

section \<open>Profit and loss\<close>

text \<open>The handler \<^verbatim>\<open>except ValueError as exc\<close>: any other exception is not caught.\<close>

definition invalid_date_format :: "'n pylib \<Rightarrow> exn \<Rightarrow> exn + string" where
  "invalid_date_format L exc =
     (case exc of
        ValueError m \<Rightarrow> Inr (json_dumps L True (error_object (''Invalid date format: '' @ m)))
      | _ \<Rightarrow> Inl exc)"

definition no_data_message :: string where
  "no_data_message =
     ''No historical data available for the given symbol and date range. ''
       @ ''Please verify the symbol and that the dates fall on trading days.''"

text \<open>
  The second half of \<^verbatim>\<open>calculate_profit_loss\<close> (from \<^verbatim>\<open>if history.empty\<close> on): what
  the tool returns for the series the provider delivered.
\<close>

definition profit_loss_report ::
  "('n::{zero,minus,times,inverse,numeral}) pylib \<Rightarrow> string \<Rightarrow> string \<Rightarrow> string \<Rightarrow>
     'n bar list \<Rightarrow> exn + string" where
  "profit_loss_report L symbol start_date end_date history =
     (if history = [] then Inr (json_dumps L True (error_object no_data_message))
      else
        (let start_price = bar_close (hd history);
             end_price = bar_close (last history);
             profit_loss = end_price - start_price;
             percent_change =
               (if start_price \<noteq> 0 then PFloat (profit_loss / start_price * 100) else PNone)
         in Inr (json_dumps L True (PDict
              [(KStr ''symbol'', PStr symbol),
               (KStr ''start_date'', PStr start_date),
               (KStr ''end_date'', PStr end_date),
               (KStr ''start_price'', PFloat start_price),
               (KStr ''end_price'', PFloat end_price),
               (KStr ''profit_loss'', PFloat profit_loss),
               (KStr ''percent_change'', percent_change)]))))"

text \<open>
  The first half: the two validations, then the request to the provider. An exception
  of the comparison, of the date addition or of the provider is not caught.
\<close>

definition calculate_profit_loss ::
  "('n::{zero,minus,times,inverse,numeral}) pylib \<Rightarrow> 'n provider \<Rightarrow>
     string \<Rightarrow> string \<Rightarrow> string \<Rightarrow> exn + string" where
  "calculate_profit_loss L P symbol start_date end_date =
     (case fromisoformat L start_date of
        Inl exc \<Rightarrow> invalid_date_format L exc
      | Inr start_dt \<Rightarrow>
     (case fromisoformat L end_date of
        Inl exc \<Rightarrow> invalid_date_format L exc
      | Inr end_dt \<Rightarrow>
     (case dt_ge start_dt end_dt of
        Inl e \<Rightarrow> Inl e
      | Inr True \<Rightarrow>
          Inr (json_dumps L True (error_object ''start_date must be earlier than end_date''))
      | Inr False \<Rightarrow>
     (case add_one_day end_dt of
        Inl e \<Rightarrow> Inl e
      | Inr end_plus \<Rightarrow>
     (case ticker_history P symbol
             \<lparr>hr_start = start_dt, hr_end = end_plus, hr_interval = ''1d'', hr_rounding = True\<rparr> of
        Inl e \<Rightarrow> Inl e
      | Inr history \<Rightarrow> profit_loss_report L symbol start_date end_date history)))))"

section \<open>Notions used in the statements\<close>

text \<open>A provider query returns (does not raise) at \<open>x\<close>.\<close>

definition returns :: "(string \<Rightarrow> exn + 'a) \<Rightarrow> string \<Rightarrow> bool" where
  "returns query x = (case query x of Inl e \<Rightarrow> False | Inr r \<Rightarrow> True)"

text \<open>What one industry contributes to the list of a grouped resolver.\<close>

definition industry_entry ::
  "'n pylib \<Rightarrow> (string \<Rightarrow> exn + 'n row list option) \<Rightarrow> string \<Rightarrow> int \<Rightarrow> string \<Rightarrow>
     'n pyval list" where
  "industry_entry L query field top_n industry_name =
     (case query industry_name of
        Inr (Some df) \<Rightarrow>
          [PDict [(KStr ''industry'', PStr industry_name),
                  (KStr field, PStr (to_json_records L (slice_to top_n df)))]]
      | _ \<Rightarrow> [])"

text \<open>What the pass over the ticker information does to one entry.\<close>

definition humanize_entry :: "'n pylib \<Rightarrow> pykey \<times> 'n pyval \<Rightarrow> pykey \<times> 'n pyval" where
  "humanize_entry L kv =
     (case fst kv of
        KStr k \<Rightarrow>
          if endswith_any (lower k) date_suffixes
          then (case fromtimestamp_strftime L (snd kv) of
                  Inl e \<Rightarrow> kv
                | Inr s \<Rightarrow> (fst kv, PStr s))
          else kv
      | _ \<Rightarrow> kv)"

text \<open>The time of day in microseconds since midnight.\<close>

definition time_micros :: "pydatetime \<Rightarrow> int" where
  "time_micros d =
     ((dt_hour d * 60 + dt_minute d) * 60 + dt_second d) * 1000000 + dt_microsecond d"

definition same_date :: "pydatetime \<Rightarrow> pydatetime \<Rightarrow> bool" where
  "same_date a b =
     (dt_year a = dt_year b \<and> dt_month a = dt_month b \<and> dt_day a = dt_day b)"

definition last_date :: "pydatetime \<Rightarrow> bool" where
  "last_date d = (dt_year d = 9999 \<and> dt_month d = 12 \<and> dt_day d = 31)"

section \<open>An instance of the library and of the provider\<close>

text \<open>
  A concrete library and a concrete provider, on which the statements below are run.
  The parser accepts the forms \<^verbatim>\<open>YYYY-MM-DD\<close> and \<^verbatim>\<open>YYYY-MM-DDTHH:MM\<close> and rejects
  every other string; the renderer of timestamps works in UTC from 1970 on; the two
  serializers return a fixed text.
\<close>

definition digit_val :: "char \<Rightarrow> int option" where
  "digit_val c =
     (let n = (of_char c :: nat) in if 48 \<le> n \<and> n \<le> 57 then Some (int n - 48) else None)"

fun number_of :: "int \<Rightarrow> string \<Rightarrow> int option" where
  "number_of acc [] = Some acc"
| "number_of acc (c # cs) =
     (case digit_val c of None \<Rightarrow> None | Some d \<Rightarrow> number_of (acc * 10 + d) cs)"

definition demo_fromisoformat :: "string \<Rightarrow> exn + pydatetime" where
  "demo_fromisoformat s =
     (let bad = Inl (ValueError (''Invalid isoformat string: '' @ quote @ s @ quote)) in
      if (length s = 10 \<or> (length s = 16 \<and> s ! 10 = CHR ''T'' \<and> s ! 13 = CHR '':''))
         \<and> s ! 4 = CHR ''-'' \<and> s ! 7 = CHR ''-''
      then
        (case (number_of 0 (take 4 s), number_of 0 (take 2 (drop 5 s)),
               number_of 0 (take 2 (drop 8 s)), number_of 0 (take 2 (drop 11 s)),
               number_of 0 (take 2 (drop 14 s))) of
           (Some y, Some m, Some d, Some h, Some mi) \<Rightarrow>
             (let dt = \<lparr>dt_year = y, dt_month = m, dt_day = d, dt_hour = h, dt_minute = mi,
                        dt_second = 0, dt_microsecond = 0, dt_utcoffset = None\<rparr>
              in if valid_datetime dt then Inr dt
                 else Inl (ValueError ''date or time component out of range''))
         | _ \<Rightarrow> bad)
      else bad)"

definition digit_char :: "int \<Rightarrow> char" where
  "digit_char d = char_of (nat d + 48)"

definition pad2 :: "int \<Rightarrow> string" where
  "pad2 n = [digit_char (n div 10 mod 10), digit_char (n mod 10)]"

definition pad4 :: "int \<Rightarrow> string" where
  "pad4 n = pad2 (n div 100) @ pad2 (n mod 100)"

fun days_after :: "nat \<Rightarrow> pydatetime \<Rightarrow> exn + pydatetime" where
  "days_after 0 d = Inr d"
| "days_after (Suc n) d =
     (case add_one_day d of Inl e \<Rightarrow> Inl e | Inr d' \<Rightarrow> days_after n d')"

definition epoch_start :: pydatetime where
  "epoch_start = \<lparr>dt_year = 1970, dt_month = 1, dt_day = 1, dt_hour = 0, dt_minute = 0,
                   dt_second = 0, dt_microsecond = 0, dt_utcoffset = None\<rparr>"

definition utc_strftime :: "int \<Rightarrow> exn + string" where
  "utc_strftime t =
     (if t < 0 then Inl (OverflowError ''timestamp out of range for platform time_t'')
      else case days_after (nat (t div 86400)) epoch_start of
             Inl e \<Rightarrow> Inl e
           | Inr d \<Rightarrow>
               Inr (pad4 (dt_year d) @ ''-'' @ pad2 (dt_month d) @ ''-'' @ pad2 (dt_day d)
                     @ '' '' @ pad2 (t mod 86400 div 3600) @ '':'' @ pad2 (t mod 3600 div 60)
                     @ '':'' @ pad2 (t mod 60)))"

definition demo_lib :: "real pylib" where
  "demo_lib =
     \<lparr>json_dumps = (\<lambda>ascii v. ''<json>''),
      to_json_records = (\<lambda>rows. ''<records>''),
      fromisoformat = demo_fromisoformat,
      strftime_of_epoch_int = utc_strftime,
      strftime_of_epoch_float = (\<lambda>x. utc_strftime \<lfloor>x\<rfloor>)\<rparr>"

definition demo_info :: "real pydict" where
  "demo_info =
     [(KStr ''shortName'', PStr ''Acme Corp''),
      (KStr ''exDividendDate'', PInt 2682061),
      (KStr ''lastSplitDate'', PStr ''n/a''),
      (KInt 7, PInt 86400),
      (KStr ''mostRecentQuarter'', PInt (- 5))]"

definition demo_search :: "real search_result" where
  "demo_search =
     \<lparr>sr_all = PDict [(KStr ''quotes'', PList [PStr ''AAPL'']), (KStr ''news'', PList [PStr ''n1''])],
      sr_quotes = PList [PStr ''AAPL''],
      sr_news = PList [PStr ''n1'']\<rparr>"

definition demo_bar :: "real \<Rightarrow> real bar" where
  "demo_bar c = \<lparr>bar_open = c, bar_high = c, bar_low = c, bar_close = c, bar_volume = 1000\<rparr>"

definition demo_row :: "string \<Rightarrow> real row" where
  "demo_row ticker = [(''symbol'', PStr ticker)]"

definition down :: exn where
  "down = ProviderError ''HTTP Error 404''"

definition demo_provider :: "real provider" where
  "demo_provider =
     \<lparr>ticker_info = (\<lambda>symbol. if symbol = ''ACME'' then Inr demo_info else Inl down),
      yf_search = (\<lambda>query. if query = ''Apple'' then Inr demo_search else Inl down),
      ticker_history = (\<lambda>symbol req.
         if symbol = ''ACME'' then Inr [demo_bar 10, demo_bar 10, demo_bar 12]
         else if symbol = ''ZERO'' then Inr [demo_bar 0, demo_bar 5]
         else if symbol = ''NONE'' then Inr []
         else Inl down),
      sector_top_etfs = (\<lambda>sector.
         if sector = ''technology''
         then Inr [(''XLK'', ''Technology Select Sector''), (''VGT'', ''Vanguard IT''),
                   (''IYW'', ''iShares US Technology'')]
         else Inl down),
      sector_top_mutual_funds = (\<lambda>sector.
         if sector = ''technology''
         then Inr [(''VITAX'', ''Vanguard IT Index''), (''FSPTX'', ''Fidelity Select Technology'')]
         else Inl down),
      sector_top_companies = (\<lambda>sector.
         if sector = ''technology'' then Inr (Some [demo_row ''AAPL'', demo_row ''MSFT''])
         else if sector = ''utilities'' then Inr None
         else Inl down),
      sector_industry_mapping = (\<lambda>sector.
         if sector = ''technology'' then Some [''software'', ''semiconductors'', ''hardware'']
         else if sector = ''energy'' then Some [''oil'', ''solar'']
         else None),
      industry_top_growth_companies = (\<lambda>industry.
         if industry = ''software'' \<or> industry = ''oil'' then Inr (Some [demo_row ''A'', demo_row ''B''])
         else if industry = ''semiconductors'' \<or> industry = ''solar'' then Inr None
         else Inl down),
      industry_top_performing_companies = (\<lambda>industry.
         if industry = ''software'' \<or> industry = ''oil'' then Inr (Some [demo_row ''A'', demo_row ''B''])
         else if industry = ''semiconductors'' \<or> industry = ''solar'' then Inr None
         else Inl down)\<rparr>"

text \<open>A provider of which every query raises and whose industry table has no key.\<close>

definition failing_provider :: "'n provider" where
  "failing_provider =
     \<lparr>ticker_info = (\<lambda>symbol. Inl down),
      yf_search = (\<lambda>query. Inl down),
      ticker_history = (\<lambda>symbol req. Inl down),
      sector_top_etfs = (\<lambda>sector. Inl down),
      sector_top_mutual_funds = (\<lambda>sector. Inl down),
      sector_top_companies = (\<lambda>sector. Inl down),
      sector_industry_mapping = (\<lambda>sector. None),
      industry_top_growth_companies = (\<lambda>industry. Inl down),
      industry_top_performing_companies = (\<lambda>industry. Inl down)\<rparr>"

section \<open>Top-entity resolvers: validation and truncation\<close>

lemma slice_to_take: "1 \<le> n \<Longrightarrow> slice_to n xs = take (nat n) xs"
  by (simp add: slice_to_def)

lemmas resolver_defs =
  get_top_etfs_def get_top_mutual_funds_def get_top_companies_def
  get_top_growth_companies_def get_top_performing_companies_def

text \<open>
  Claim C7. For a requested count \<open>top_n \<le> 0\<close> and any sector, library and provider,
  each of the five resolvers returns the string \<^verbatim>\<open>top_n must be greater than 0\<close>; it
  returns it (\<open>Inr\<close>), it does not raise.
\<close>

theorem top_n_validation_message:
  assumes "top_n \<le> 0"
  shows "get_top_etfs P sector top_n = Inr ''top_n must be greater than 0'' \<and>
         get_top_mutual_funds P sector top_n = Inr ''top_n must be greater than 0'' \<and>
         get_top_companies L P sector top_n = Inr ''top_n must be greater than 0'' \<and>
         get_top_growth_companies L P sector top_n = Inr ''top_n must be greater than 0'' \<and>
         get_top_performing_companies L P sector top_n = Inr ''top_n must be greater than 0''"
  using assms by (simp add: resolver_defs top_n_message_def)

theorem top_n_validation_message_witness:
  "(0::int) \<le> 0 \<and>
   get_top_etfs demo_provider ''technology'' 0 = Inr ''top_n must be greater than 0'' \<and>
   get_top_mutual_funds demo_provider ''technology'' 0 = Inr ''top_n must be greater than 0'' \<and>
   get_top_companies demo_lib demo_provider ''technology'' 0
     = Inr ''top_n must be greater than 0'' \<and>
   get_top_growth_companies demo_lib demo_provider ''technology'' 0
     = Inr ''top_n must be greater than 0'' \<and>
   get_top_performing_companies demo_lib demo_provider ''technology'' 0
     = Inr ''top_n must be greater than 0''"
  using top_n_validation_message [of 0 demo_provider "''technology''" demo_lib] by simp

text \<open>
  Claim C9. The check of \<open>top_n\<close> comes before any use of the provider: for \<open>top_n < 1\<close>
  the result of every resolver, reached through \<open>get_top\<close>, is the same for every
  library, provider and sector as for the provider of which every query raises and whose
  industry table has no entry, and there it is the validation string.
\<close>

theorem top_n_validation_precedes_provider:
  assumes "top_n < 1"
  shows "get_top L P sector ''top_etfs'' top_n
           = get_top L' failing_provider sector' ''top_etfs'' top_n \<and>
         get_top L P sector ''top_mutual_funds'' top_n
           = get_top L' failing_provider sector' ''top_mutual_funds'' top_n \<and>
         get_top L P sector ''top_companies'' top_n
           = get_top L' failing_provider sector' ''top_companies'' top_n \<and>
         get_top L P sector ''top_growth_companies'' top_n
           = get_top L' failing_provider sector' ''top_growth_companies'' top_n \<and>
         get_top L P sector ''top_performing_companies'' top_n
           = get_top L' failing_provider sector' ''top_performing_companies'' top_n \<and>
         (\<forall>top_type \<in> set [''top_etfs'', ''top_mutual_funds'', ''top_companies'',
                            ''top_growth_companies'', ''top_performing_companies''].
            get_top L' failing_provider sector' top_type top_n = Inr top_n_message)"
  using assms by (simp add: get_top_def resolver_defs)

theorem top_n_validation_precedes_provider_witness:
  "(- 3 :: int) < 1 \<and>
   get_top demo_lib demo_provider ''technology'' ''top_growth_companies'' (- 3)
     = get_top demo_lib failing_provider ''no such sector'' ''top_growth_companies'' (- 3) \<and>
   get_top demo_lib failing_provider ''no such sector'' ''top_growth_companies'' (- 3)
     = Inr ''top_n must be greater than 0''"
  using top_n_validation_precedes_provider
    [of "- 3" demo_lib demo_provider "''technology''" demo_lib "''no such sector''"]
  by (simp add: top_n_message_def)

text \<open>
  The truncation of claim C1 holds for the ETF resolver and for the table of the
  companies resolver: the first \<open>top_n\<close> entries in the provider's order, all of them
  when there are fewer.
\<close>

lemma get_top_etfs_first_n:
  assumes "1 \<le> top_n" and "sector_top_etfs P sector = Inr etfs"
  shows "get_top_etfs P sector top_n = Inr (join newline (map fmt_entry (take (nat top_n) etfs)))"
  using assms by (simp add: get_top_etfs_def slice_to_take take_map)

lemma get_top_companies_first_n:
  assumes "1 \<le> top_n" and "sector_top_companies P sector = Inr (Some df)"
  shows "get_top_companies L P sector top_n = Inr (to_json_records L (take (nat top_n) df))"
  using assms by (simp add: get_top_companies_def slice_to_take)

text \<open>
  Claim C1, which the mutual-funds resolver breaks. The provider lists two funds for the
  sector and one is asked for: \<open>get_top_mutual_funds\<close> returns both lines, where
  \<open>get_top_etfs\<close>, on a list of three, returns the first line only.
\<close>

theorem get_top_mutual_funds_ignores_top_n:
  "get_top_mutual_funds demo_provider ''technology'' 1
     = Inr (''VITAX: Vanguard IT Index'' @ newline @ ''FSPTX: Fidelity Select Technology'') \<and>
   get_top_etfs demo_provider ''technology'' 1 = Inr ''XLK: Technology Select Sector''"
  by (simp add: get_top_mutual_funds_def get_top_etfs_def demo_provider_def fmt_entry_def
      slice_to_def)

section \<open>Provider failures\<close>

lemma industry_loop_abort:
  "list_all (returns query) pre \<Longrightarrow> query i = Inl e \<Longrightarrow>
   industry_loop L query field top_n (pre @ i # post) results = Inl e"
  by (induction pre arbitrary: results)
     (auto simp: returns_def split: sum.splits option.splits)

lemma industry_loop_returns:
  "list_all (returns query) xs \<Longrightarrow>
   industry_loop L query field top_n xs results =
     Inr (results @ concat (map (industry_entry L query field top_n) xs))"
  by (induction xs arbitrary: results)
     (auto simp: returns_def industry_entry_def split: sum.splits option.splits)

lemma industry_entry_skip:
  "query i = Inr None \<Longrightarrow> industry_entry L query field top_n i = []"
  by (simp add: industry_entry_def)

text \<open>
  Claim C4. With \<open>top_n \<ge> 1\<close>: the companies resolver turns an exception of the provider,
  and a missing table, into a JSON object with the field \<^verbatim>\<open>error\<close>; the ETF and the
  mutual-funds resolver let the exception escape; in the two grouped resolvers the
  exception of the call for one industry escapes whatever the industries after it would
  give (the ones before it having returned), and when every call returns the result lists
  the industries that gave a table, in order, an industry without a table adding nothing.
\<close>

theorem provider_failure_asymmetry:
  assumes "1 \<le> top_n"
  shows
    "(sector_top_companies P sector = Inl e \<longrightarrow>
        get_top_companies L P sector top_n =
          Inr (json_dumps L True (PDict [(KStr ''error'',
            PStr (''Failed to get top companies for sector '' @ quote @ sector @ quote
                    @ '': '' @ exn_str e))]))) \<and>
     (sector_top_companies P sector = Inr None \<longrightarrow>
        get_top_companies L P sector top_n =
          Inr (json_dumps L True (PDict [(KStr ''error'',
            PStr (''No top companies available for '' @ sector @ '' sector.''))]))) \<and>
     (sector_top_etfs P sector = Inl e \<longrightarrow> get_top_etfs P sector top_n = Inl e) \<and>
     (sector_top_mutual_funds P sector = Inl e \<longrightarrow> get_top_mutual_funds P sector top_n = Inl e) \<and>
     (sector_industry_mapping P sector = Some (pre @ i # post) \<and>
      list_all (returns (industry_top_growth_companies P)) pre \<and>
      industry_top_growth_companies P i = Inl e \<longrightarrow>
        get_top_growth_companies L P sector top_n = Inl e) \<and>
     (sector_industry_mapping P sector = Some (pre @ i # post) \<and>
      list_all (returns (industry_top_performing_companies P)) pre \<and>
      industry_top_performing_companies P i = Inl e \<longrightarrow>
        get_top_performing_companies L P sector top_n = Inl e) \<and>
     (sector_industry_mapping P sector = Some industries \<and>
      list_all (returns (industry_top_growth_companies P)) industries \<longrightarrow>
        get_top_growth_companies L P sector top_n =
          Inr (json_dumps L False (PList (concat (map
            (industry_entry L (industry_top_growth_companies P) ''top_growth_companies'' top_n)
            industries)))) \<and>
        (\<forall>j \<in> set industries. industry_top_growth_companies P j = Inr None \<longrightarrow>
           industry_entry L (industry_top_growth_companies P) ''top_growth_companies'' top_n j
             = [])) \<and>
     (sector_industry_mapping P sector = Some industries \<and>
      list_all (returns (industry_top_performing_companies P)) industries \<longrightarrow>
        get_top_performing_companies L P sector top_n =
          Inr (json_dumps L False (PList (concat (map
            (industry_entry L (industry_top_performing_companies P)
               ''top_performing_companies'' top_n)
            industries)))) \<and>
        (\<forall>j \<in> set industries. industry_top_performing_companies P j = Inr None \<longrightarrow>
           industry_entry L (industry_top_performing_companies P)
             ''top_performing_companies'' top_n j = []))"
  using assms
  by (simp add: resolver_defs error_object_def industry_loop_abort industry_loop_returns
      industry_entry_skip)

theorem provider_failure_asymmetry_witness:
  "(1::int) \<le> 2 \<and>
   sector_top_companies demo_provider ''healthcare'' = Inl down \<and>
   get_top_companies demo_lib demo_provider ''healthcare'' 2 =
     Inr (json_dumps demo_lib True (PDict [(KStr ''error'',
       PStr (''Failed to get top companies for sector '' @ quote @ ''healthcare'' @ quote
               @ '': '' @ ''HTTP Error 404''))])) \<and>
   sector_top_companies demo_provider ''utilities'' = Inr None \<and>
   get_top_companies demo_lib demo_provider ''utilities'' 2 =
     Inr (json_dumps demo_lib True (PDict [(KStr ''error'',
       PStr ''No top companies available for utilities sector.'')])) \<and>
   sector_top_etfs demo_provider ''healthcare'' = Inl down \<and>
   get_top_etfs demo_provider ''healthcare'' 2 = Inl down \<and>
   sector_top_mutual_funds demo_provider ''healthcare'' = Inl down \<and>
   get_top_mutual_funds demo_provider ''healthcare'' 2 = Inl down \<and>
   sector_industry_mapping demo_provider ''technology''
     = Some ([''software'', ''semiconductors''] @ ''hardware'' # []) \<and>
   list_all (returns (industry_top_growth_companies demo_provider))
     [''software'', ''semiconductors''] \<and>
   industry_top_growth_companies demo_provider ''hardware'' = Inl down \<and>
   get_top_growth_companies demo_lib demo_provider ''technology'' 2 = Inl down \<and>
   get_top_performing_companies demo_lib demo_provider ''technology'' 2 = Inl down \<and>
   sector_industry_mapping demo_provider ''energy'' = Some [''oil'', ''solar''] \<and>
   list_all (returns (industry_top_growth_companies demo_provider)) [''oil'', ''solar''] \<and>
   industry_top_growth_companies demo_provider ''solar'' = Inr None \<and>
   get_top_growth_companies demo_lib demo_provider ''energy'' 1 =
     Inr (json_dumps demo_lib False (PList
       [PDict [(KStr ''industry'', PStr ''oil''),
               (KStr ''top_growth_companies'',
                PStr (to_json_records demo_lib [demo_row ''A'']))]]))"
  using provider_failure_asymmetry
    [where top_n = 2 and P = demo_provider and sector = "''healthcare''" and e = down
       and L = demo_lib]
    provider_failure_asymmetry
    [where top_n = 2 and P = demo_provider and sector = "''utilities''" and L = demo_lib]
    provider_failure_asymmetry
    [where top_n = 2 and P = demo_provider and sector = "''technology''" and e = down
       and pre = "[''software'', ''semiconductors'']" and i = "''hardware''" and post = "[]"
       and L = demo_lib]
    provider_failure_asymmetry
    [where top_n = 1 and P = demo_provider and sector = "''energy''"
       and industries = "[''oil'', ''solar'']" and L = demo_lib]
  by (simp add: demo_provider_def returns_def industry_entry_def slice_to_def down_def)

section \<open>Search\<close>

text \<open>
  Claim C8. Given the result of the one provider search of the call: the selector is
  compared in lower case; \<^verbatim>\<open>all\<close>, \<^verbatim>\<open>quotes\<close> and \<^verbatim>\<open>news\<close> return the serialization of
  that part of the result alone, every other selector returns the fixed message, as a
  string and not as an exception.
\<close>

theorem search_selector:
  assumes "yf_search P query = Inr s"
  shows
    "(lower search_type = ''all'' \<longrightarrow>
        search L P query search_type = Inr (json_dumps L False (sr_all s))) \<and>
     (lower search_type = ''quotes'' \<longrightarrow>
        search L P query search_type = Inr (json_dumps L False (sr_quotes s))) \<and>
     (lower search_type = ''news'' \<longrightarrow>
        search L P query search_type = Inr (json_dumps L False (sr_news s))) \<and>
     (lower search_type \<notin> {''all'', ''quotes'', ''news''} \<longrightarrow>
        search L P query search_type
          = Inr ''Invalid output_type. Use 'all', 'quotes', or 'news'.'')"
  using assms by (simp add: search_def Let_def)

lemma lower_QUOTES: "lower ''QUOTES'' = ''quotes''"
  by code_simp
lemma lower_News: "lower ''News'' = ''news''"
  by code_simp
lemma lower_all: "lower ''all'' = ''all''"
  by code_simp
lemma lower_both: "lower ''Both'' = ''both''"
  by code_simp

theorem search_selector_witness:
  "yf_search demo_provider ''Apple'' = Inr demo_search \<and>
   search demo_lib demo_provider ''Apple'' ''all''
     = Inr (json_dumps demo_lib False (sr_all demo_search)) \<and>
   search demo_lib demo_provider ''Apple'' ''QUOTES''
     = Inr (json_dumps demo_lib False (PList [PStr ''AAPL''])) \<and>
   search demo_lib demo_provider ''Apple'' ''News''
     = Inr (json_dumps demo_lib False (PList [PStr ''n1''])) \<and>
   search demo_lib demo_provider ''Apple'' ''Both''
     = Inr ''Invalid output_type. Use 'all', 'quotes', or 'news'.''"
proof -
  have s: "yf_search demo_provider ''Apple'' = Inr demo_search"
    by (simp add: demo_provider_def)
  show ?thesis
    using s search_selector [OF s, of "''all''" demo_lib]
      search_selector [OF s, of "''QUOTES''" demo_lib]
      search_selector [OF s, of "''News''" demo_lib]
      search_selector [OF s, of "''Both''" demo_lib]
    by (simp add: lower_QUOTES lower_News lower_all lower_both demo_search_def)
qed

section \<open>Calendar arithmetic\<close>

lemma div_step:
  assumes "0 < (k::int)"
  shows "y div k = (y - 1) div k + (if y mod k = 0 then 1 else 0)"
proof -
  define q r where "q = (y - 1) div k" and "r = (y - 1) mod k"
  have y: "y = q * k + (r + 1)" by (simp add: q_def r_def)
  have r: "0 \<le> r" "r < k" using assms by (simp_all add: r_def)
  show ?thesis
  proof (cases "r + 1 = k")
    case True
    then have "y = (q + 1) * k" using y by (simp add: algebra_simps)
    then have "y div k = q + 1" "y mod k = 0" using assms by simp_all
    then show ?thesis by (simp add: q_def)
  next
    case False
    with r have lt: "r + 1 < k" by simp
    have "y div k = q" "y mod k = r + 1"
      unfolding y using r lt assms by simp_all
    then show ?thesis using r by (simp add: q_def)
  qed
qed

lemma mod_400_100: "(y::int) mod 400 = 0 \<Longrightarrow> y mod 100 = 0"
  using mod_mod_cancel [of 100 400 y] by simp

lemma mod_100_4: "(y::int) mod 100 = 0 \<Longrightarrow> y mod 4 = 0"
  using mod_mod_cancel [of 4 100 y] by simp


lemma days_before_next_year:
  "days_before_year (y + 1) = days_before_year y + (if is_leap y then 366 else 365)"
proof -
  define a b c :: int where "a = (if y mod 4 = 0 then 1 else 0)"
    and "b = (if y mod 100 = 0 then 1 else 0)" and "c = (if y mod 400 = 0 then 1 else 0)"
  define p q r where "p = (y - 1) div 4" and "q = (y - 1) div 100" and "r = (y - 1) div 400"
  have 1: "y div 4 = p + a" unfolding a_def p_def by (rule div_step) simp
  have 2: "y div 100 = q + b" unfolding b_def q_def by (rule div_step) simp
  have 3: "y div 400 = r + c" unfolding c_def r_def by (rule div_step) simp
  have next_year: "days_before_year (y + 1) = y * 365 + y div 4 - y div 100 + y div 400"
    by (simp add: days_before_year_def Let_def)
  have this_year: "days_before_year y = (y - 1) * 365 + p - q + r"
    by (simp add: days_before_year_def Let_def p_def q_def r_def)
  have leap: "a - b + c = (if is_leap y then 1 else 0)"
  proof (cases "y mod 400 = 0")
    case True
    then have "y mod 100 = 0" by (rule mod_400_100)
    then have "y mod 4 = 0" by (rule mod_100_4)
    with True \<open>y mod 100 = 0\<close> show ?thesis
      by (simp add: a_def b_def c_def is_leap_def)
  next
    case no400: False
    show ?thesis
    proof (cases "y mod 100 = 0")
      case True
      then have "y mod 4 = 0" by (rule mod_100_4)
      with True no400 show ?thesis by (simp add: a_def b_def c_def is_leap_def)
    next
      case False
      with no400 show ?thesis by (simp add: a_def b_def c_def is_leap_def)
    qed
  qed
  have "days_before_year (y + 1) = days_before_year y + 365 + (a - b + c)"
    unfolding next_year this_year 1 2 3 by (simp add: algebra_simps)
  then show ?thesis unfolding leap by simp
qed


lemma days_before_next_month:
  assumes "1 \<le> m" and "m < 12"
  shows "days_before_month y (m + 1) = days_before_month y m + days_in_month y m"
proof -
  from assms have "m = 1 \<or> m = 2 \<or> m = 3 \<or> m = 4 \<or> m = 5 \<or> m = 6 \<or> m = 7 \<or> m = 8
      \<or> m = 9 \<or> m = 10 \<or> m = 11"
    by arith
  then show ?thesis
    by (elim disjE) (simp_all add: days_before_month_def days_in_month_def)
qed

lemma days_before_january: "days_before_month y 1 = 0"
  by (simp add: days_before_month_def)

lemma days_in_december:
  "days_before_month y 12 + days_in_month y 12 = (if is_leap y then 366 else 365)"
  by (simp add: days_before_month_def days_in_month_def)


lemma add_one_day_ordinal:
  assumes "valid_datetime d" and "add_one_day d = Inr d'"
  shows "toordinal d' = toordinal d + 1"
proof -
  from assms(1) have m: "1 \<le> dt_month d" "dt_month d \<le> 12"
    and dd: "dt_day d \<le> days_in_month (dt_year d) (dt_month d)"
    by (simp_all add: valid_datetime_def)
  show ?thesis
  proof (cases "dt_day d < days_in_month (dt_year d) (dt_month d)")
    case True
    with assms(2) have "d' = d\<lparr>dt_day := dt_day d + 1\<rparr>"
      by (simp add: add_one_day_def)
    then show ?thesis by (simp add: toordinal_def)
  next
    case last_day: False
    with dd have eq: "dt_day d = days_in_month (dt_year d) (dt_month d)" by simp
    show ?thesis
    proof (cases "dt_month d < 12")
      case True
      with last_day assms(2) have "d' = d\<lparr>dt_month := dt_month d + 1, dt_day := 1\<rparr>"
        by (simp add: add_one_day_def)
      then show ?thesis
        using days_before_next_month [OF m(1) True, of "dt_year d"] eq
        by (simp add: toordinal_def)
    next
      case False
      with m have m12: "dt_month d = 12" by simp
      from False last_day assms(2)
      have d': "d' = d\<lparr>dt_year := dt_year d + 1, dt_month := 1, dt_day := 1\<rparr>"
        by (simp add: add_one_day_def split: if_splits)
      show ?thesis
        using days_before_next_year [of "dt_year d"] days_in_december [of "dt_year d"] eq m12
        by (simp add: d' toordinal_def days_before_january)
    qed
  qed
qed

lemma add_one_day_time:
  assumes "add_one_day d = Inr d'"
  shows "dt_hour d' = dt_hour d \<and> dt_minute d' = dt_minute d \<and> dt_second d' = dt_second d \<and>
         dt_microsecond d' = dt_microsecond d \<and> dt_utcoffset d' = dt_utcoffset d"
  using assms by (auto simp: add_one_day_def split: if_splits)

lemma add_one_day_total:
  assumes "valid_datetime d" and "\<not> last_date d"
  shows "\<exists>d'. add_one_day d = Inr d'"
proof -
  from assms(1) have "dt_month d \<le> 12" "dt_year d \<le> 9999"
      "dt_day d \<le> days_in_month (dt_year d) (dt_month d)"
    by (simp_all add: valid_datetime_def)
  moreover have "days_in_month (dt_year d) 12 = 31"
    by (simp add: days_in_month_def)
  ultimately show ?thesis
    using assms(2) by (auto simp: add_one_day_def last_date_def)
qed

section \<open>The two halves of the profit and loss tool\<close>

lemma calculate_profit_loss_fetch:
  assumes "fromisoformat L start_date = Inr start_dt"
    and "fromisoformat L end_date = Inr end_dt"
    and "dt_ge start_dt end_dt = Inr False"
    and "add_one_day end_dt = Inr end_plus"
  shows "calculate_profit_loss L P symbol start_date end_date =
    (case ticker_history P symbol
            \<lparr>hr_start = start_dt, hr_end = end_plus, hr_interval = ''1d'', hr_rounding = True\<rparr> of
       Inl e \<Rightarrow> Inl e
     | Inr history \<Rightarrow> profit_loss_report L symbol start_date end_date history)"
  using assms by (simp add: calculate_profit_loss_def)

lemma calculate_profit_loss_order:
  assumes "fromisoformat L start_date = Inr start_dt"
    and "fromisoformat L end_date = Inr end_dt"
    and "dt_ge start_dt end_dt = Inr True"
  shows "calculate_profit_loss L P symbol start_date end_date =
    Inr (json_dumps L True (error_object ''start_date must be earlier than end_date''))"
  using assms by (simp add: calculate_profit_loss_def)

lemma radix_le:
  fixes a a' r r' k :: int
  assumes "0 \<le> k" and "0 \<le> r" and "r' < k" and "a * k + r \<le> a' * k + r'"
  shows "a \<le> a'"
proof (rule ccontr)
  assume "\<not> a \<le> a'"
  then have "a' + 1 \<le> a" by simp
  then have "(a' + 1) * k \<le> a * k" using assms(1) by (rule mult_right_mono)
  then have "a' * k + k \<le> a * k" by (simp add: algebra_simps)
  with assms show False by simp
qed

lemma tuple_cmp_time_less:
  fixes h m s u h' m' s' u' :: int
  assumes "0 \<le> m" "m < 60" "0 \<le> s" "s < 60" "0 \<le> u" "u < 1000000"
    and "0 \<le> m'" "m' < 60" "0 \<le> s'" "s' < 60" "0 \<le> u'" "u' < 1000000"
    and lt: "((h * 60 + m) * 60 + s) * 1000000 + u < ((h' * 60 + m') * 60 + s') * 1000000 + u'"
  shows "tuple_cmp [h, m, s, u] [h', m', s', u'] = - 1"
    and "tuple_cmp [h', m', s', u'] [h, m, s, u] = 1"
proof -
  define A A' B B' where "A = (h * 60 + m) * 60 + s" and "A' = (h' * 60 + m') * 60 + s'"
    and "B = h * 60 + m" and "B' = h' * 60 + m'"
  have ltA: "A * 1000000 + u < A' * 1000000 + u'"
    using lt by (simp only: A_def A'_def)
  then have "A * 1000000 + u \<le> A' * 1000000 + u'" by simp
  then have AA: "A \<le> A'"
    using \<open>0 \<le> u\<close> \<open>u' < 1000000\<close> by (intro radix_le [of 1000000 u u' A A']) simp_all
  then have "B * 60 + s \<le> B' * 60 + s'" by (simp only: A_def A'_def B_def B'_def)
  then have BB: "B \<le> B'"
    using \<open>0 \<le> s\<close> \<open>s' < 60\<close> by (intro radix_le [of 60 s s' B B']) simp_all
  then have "h * 60 + m \<le> h' * 60 + m'" by (simp only: B_def B'_def)
  then have hh: "h \<le> h'"
    using \<open>0 \<le> m\<close> \<open>m' < 60\<close> by (intro radix_le [of 60 m m' h h']) simp_all
  have mm: "m \<le> m'" if "h = h'" using BB that by (simp add: B_def B'_def)
  have ss: "s \<le> s'" if "h = h'" "m = m'" using AA that by (simp add: A_def A'_def)
  have uu: "u < u'" if "h = h'" "m = m'" "s = s'" using ltA that by (simp add: A_def A'_def)
  show "tuple_cmp [h, m, s, u] [h', m', s', u'] = - 1"
    using hh mm ss uu by (cases "h = h'"; cases "m = m'"; cases "s = s'") auto
  show "tuple_cmp [h', m', s', u'] [h, m, s, u] = 1"
    using hh mm ss uu by (cases "h = h'"; cases "m = m'"; cases "s = s'") auto
qed

lemma same_day_order:
  assumes "valid_datetime a" and "valid_datetime b" and "same_date a b"
    and "dt_utcoffset a = None" and "dt_utcoffset b = None"
    and "time_micros a < time_micros b"
  shows "dt_ge a b = Inr False" and "dt_ge b a = Inr True"
proof -
  from assms(1,2) have bounds:
    "0 \<le> dt_minute a" "dt_minute a < 60" "0 \<le> dt_second a" "dt_second a < 60"
    "0 \<le> dt_microsecond a" "dt_microsecond a < 1000000"
    "0 \<le> dt_minute b" "dt_minute b < 60" "0 \<le> dt_second b" "dt_second b < 60"
    "0 \<le> dt_microsecond b" "dt_microsecond b < 1000000"
    by (simp_all add: valid_datetime_def)
  from assms(6) have lt:
    "((dt_hour a * 60 + dt_minute a) * 60 + dt_second a) * 1000000 + dt_microsecond a
     < ((dt_hour b * 60 + dt_minute b) * 60 + dt_second b) * 1000000 + dt_microsecond b"
    by (simp only: time_micros_def)
  note t = tuple_cmp_time_less [OF bounds lt]
  from assms(3) have "tuple_cmp (dt_fields a) (dt_fields b) = - 1"
    using t(1) by (simp add: dt_fields_def same_date_def)
  then show "dt_ge a b = Inr False"
    using assms(4,5) by (simp add: dt_ge_def dt_cmp_def)
  from assms(3) have "tuple_cmp (dt_fields b) (dt_fields a) = 1"
    using t(2) by (simp add: dt_fields_def same_date_def)
  then show "dt_ge b a = Inr True"
    using assms(4,5) by (simp add: dt_ge_def dt_cmp_def)
qed

lemma demo_parse_10: "fromisoformat demo_lib ''2024-01-02T10:30''
  = Inr \<lparr>dt_year = 2024, dt_month = 1, dt_day = 2, dt_hour = 10, dt_minute = 30,
          dt_second = 0, dt_microsecond = 0, dt_utcoffset = None\<rparr>"
  by code_simp

lemma demo_parse_15: "fromisoformat demo_lib ''2024-01-02T15:00''
  = Inr \<lparr>dt_year = 2024, dt_month = 1, dt_day = 2, dt_hour = 15, dt_minute = 0,
          dt_second = 0, dt_microsecond = 0, dt_utcoffset = None\<rparr>"
  by code_simp

lemma demo_parse_jan2: "fromisoformat demo_lib ''2024-01-02''
  = Inr \<lparr>dt_year = 2024, dt_month = 1, dt_day = 2, dt_hour = 0, dt_minute = 0,
          dt_second = 0, dt_microsecond = 0, dt_utcoffset = None\<rparr>"
  by code_simp

lemma demo_parse_jan5: "fromisoformat demo_lib ''2024-01-05''
  = Inr \<lparr>dt_year = 2024, dt_month = 1, dt_day = 5, dt_hour = 0, dt_minute = 0,
          dt_second = 0, dt_microsecond = 0, dt_utcoffset = None\<rparr>"
  by code_simp

lemma demo_parse_bad: "fromisoformat demo_lib ''02/01/2024''
  = Inl (ValueError (''Invalid isoformat string: '' @ quote @ ''02/01/2024'' @ quote))"
  by code_simp

end
